theory Spec2Isabelle
  imports Main "HOL-Library.Sublist"
begin

section \<open>JavaScript strings, numbers and primitive values\<close>

text \<open>
  Strings are lists of characters. The two quote characters are written by their code:
  \<open>sq\<close> is the single quote (0x27), \<open>dq\<close> the double quote (0x22), \<open>bs\<close> the
  backslash (0x5C) and \<open>nl\<close> the line feed (0x0A).
  The texts of a descriptor (table names, aliases, column names, operators) are taken to be
  ASCII: \<open>toLowerCase\<close> and \<open>toUpperCase\<close> convert the letters A to Z and a to z and keep
  every other character.
\<close>

abbreviation sq :: string where "sq \<equiv> [CHR 0x27]"
abbreviation dq :: string where "dq \<equiv> [CHR 0x22]"
abbreviation nl :: string where "nl \<equiv> [CHR 0x0A]"
abbreviation bs :: string where "bs \<equiv> [CHR 0x5C]"

definition upperLetters :: string where
  "upperLetters = ''ABCDEFGHIJKLMNOPQRSTUVWXYZ''"

definition lowerLetters :: string where
  "lowerLetters = ''abcdefghijklmnopqrstuvwxyz''"

definition toLowerChar :: "char \<Rightarrow> char" where
  "toLowerChar c = (case map_of (zip upperLetters lowerLetters) c of Some d \<Rightarrow> d | None \<Rightarrow> c)"

definition toUpperChar :: "char \<Rightarrow> char" where
  "toUpperChar c = (case map_of (zip lowerLetters upperLetters) c of Some d \<Rightarrow> d | None \<Rightarrow> c)"

definition toLowerCase :: "string \<Rightarrow> string" where
  "toLowerCase s = map toLowerChar s"

definition toUpperCase :: "string \<Rightarrow> string" where
  "toUpperCase s = map toUpperChar s"

text \<open>\<open>s.replace(/c/g, r)\<close>: every occurrence of the character \<open>c\<close> becomes \<open>r\<close>.\<close>

definition replaceAll :: "char \<Rightarrow> string \<Rightarrow> string \<Rightarrow> string" where
  "replaceAll c r s = concat (map (\<lambda>x. if x = c then r else [x]) s)"

text \<open>\<open>s.startsWith(p)\<close> and \<open>s.substring(n)\<close>.\<close>

definition startsWith :: "string \<Rightarrow> string \<Rightarrow> bool" where
  "startsWith s p = (take (length p) s = p)"

definition substring :: "string \<Rightarrow> nat \<Rightarrow> string" where
  "substring s n = drop n s"

text \<open>\<open>xs.join(sep)\<close> on an array of strings.\<close>

fun join :: "string \<Rightarrow> string list \<Rightarrow> string" where
  "join sep [] = []"
| "join sep [x] = x"
| "join sep (x # y # ys) = x @ sep @ join sep (y # ys)"

text \<open>
  A Number is a value of an arbitrary type \<open>'n\<close>. Its text, which \<open>String(n)\<close> and a template
  literal both give, is not code of this repository: every function that writes a number takes
  the conversion as its first argument \<open>numberToString :: 'n \<Rightarrow> string\<close>, and every theorem
  holds for every such conversion.

  \<open>string | number\<close> (an enumerated value) and \<open>string | number | boolean\<close> (a default
  value, and a filter value, whose \<open>null\<close> is \<open>None\<close>).
\<close>

datatype 'n strnum = SNString string | SNNumber 'n

datatype 'n prim = PString string | PNumber 'n | PBoolean bool

text \<open>\<open>String(v)\<close> for \<open>v : string | number\<close>.\<close>

fun String_strnum :: "('n \<Rightarrow> string) \<Rightarrow> 'n strnum \<Rightarrow> string" where
  "String_strnum numberToString (SNString s) = s"
| "String_strnum numberToString (SNNumber n) = numberToString n"

text \<open>Truthiness of an optional boolean: \<open>undefined\<close> and \<open>false\<close> are falsy.\<close>

definition truthy :: "bool option \<Rightarrow> bool" where
  "truthy b = (b = Some True)"

text \<open>\<open>a || b\<close> on an optional string \<open>a\<close>: \<open>undefined\<close> and the empty string are falsy.\<close>

definition orElse :: "string option \<Rightarrow> string \<Rightarrow> string" where
  "orElse a b = (case a of None \<Rightarrow> b | Some t \<Rightarrow> if t \<noteq> [] then t else b)"

section \<open>The data model of Schema.ts\<close>

record 'n EnumValue =
  ev_value :: "'n strnum"
  ev_label :: "string option"

record 'n Column =
  name :: string
  sqlType :: "string option"
  primaryKey :: "bool option"
  nullable :: "bool option"
  autoIncrement :: "bool option"
  foreignKey :: "bool option"
  defaultValue :: "'n prim option"
  enumValues :: "'n EnumValue list option"

datatype action = CASCADE | SET_NULL | RESTRICT | NO_ACTION

fun action_text :: "action \<Rightarrow> string" where
  "action_text CASCADE = ''CASCADE''"
| "action_text SET_NULL = ''SET NULL''"
| "action_text RESTRICT = ''RESTRICT''"
| "action_text NO_ACTION = ''NO ACTION''"

record ForeignKey =
  localColumn :: string
  referencedTable :: string
  referencedColumn :: string
  onDelete :: "action option"
  onUpdate :: "action option"

text \<open>
  A filter names its column by \<open>column\<close> or by \<open>alias\<close>; the operator is kept as a string,
  as the code reads it (\<open>as string\<close>); the value \<open>null\<close> is \<open>None\<close>.
\<close>

datatype filterRef = ByColumn string | ByAlias string

record 'n Filter =
  f_ref :: filterRef
  f_operator :: "string option"
  f_value :: "'n prim option"

text \<open>An argument of type \<open>T | T[]\<close>, told apart by \<open>Array.isArray\<close>.\<close>

datatype 'a oneOrMany = Single 'a | Several "'a list"

fun asArray :: "'a oneOrMany \<Rightarrow> 'a list" where
  "asArray (Several xs) = xs"
| "asArray (Single x) = [x]"

record 'n Schema =
  columns :: "'n Column list"
  constraints :: "ForeignKey list"
  tableName :: string
  alias_str :: string

text \<open>The object \<open>data\<close> of sqlInsert and sqlUpdate, read only through hasOwnProperty.\<close>

definition hasOwnProperty :: "(string \<rightharpoonup> 'v) \<Rightarrow> string \<Rightarrow> bool" where
  "hasOwnProperty data k = (data k \<noteq> None)"

section \<open>Construction and mutation\<close>

definition new_Schema :: "string \<Rightarrow> string option \<Rightarrow> 'n Column list option \<Rightarrow> ForeignKey list option \<Rightarrow> 'n Schema" where
  "new_Schema tn al cols cons =
     \<lparr> columns = (case cols of Some cs \<Rightarrow> cs | None \<Rightarrow> []),
       constraints = (case cons of Some fs \<Rightarrow> fs | None \<Rightarrow> []),
       tableName = tn,
       alias_str = toLowerCase (orElse al tn) \<rparr>"

definition addColumn :: "'n Schema \<Rightarrow> 'n Column oneOrMany \<Rightarrow> 'n Schema" where
  "addColumn s column = s\<lparr>columns := columns s @ asArray column\<rparr>"

definition addConstraint :: "'n Schema \<Rightarrow> ForeignKey oneOrMany \<Rightarrow> 'n Schema" where
  "addConstraint s constraint = s\<lparr>constraints := constraints s @ asArray constraint\<rparr>"

section \<open>Naming and projection helpers\<close>

definition getAlias :: "'n Schema \<Rightarrow> string" where
  "getAlias s = alias_str s"

definition getTableName :: "'n Schema \<Rightarrow> bool \<Rightarrow> string" where
  "getTableName s useSql = (if useSql then toLowerCase (tableName s) else tableName s)"

definition getColumnAliases :: "'n Schema \<Rightarrow> bool \<Rightarrow> string list" where
  "getColumnAliases s includePrimary =
     (let al = getAlias s
      in map (\<lambda>col. al @ ''_'' @ name col)
           (filter (\<lambda>col. includePrimary \<or> \<not> truthy (primaryKey col)) (columns s)))"

definition getColumnNames :: "'n Schema \<Rightarrow> bool \<Rightarrow> string list" where
  "getColumnNames s includePrimary =
     (let al = getAlias s
      in map (\<lambda>col. al @ ''.'' @ name col)
           (filter (\<lambda>col. includePrimary \<or> \<not> truthy (primaryKey col)) (columns s)))"

fun getPrimaryKey_loop :: "string \<Rightarrow> bool \<Rightarrow> 'n Column list \<Rightarrow> string option" where
  "getPrimaryKey_loop al useAlias [] = None"
| "getPrimaryKey_loop al useAlias (col # cols) =
     (if truthy (primaryKey col) then Some (al @ (if useAlias then ''_'' else ''.'') @ name col)
      else getPrimaryKey_loop al useAlias cols)"

definition getPrimaryKey :: "'n Schema \<Rightarrow> bool \<Rightarrow> string option" where
  "getPrimaryKey s useAlias = getPrimaryKey_loop (getAlias s) useAlias (columns s)"

definition aliasToColumnName :: "'n Schema \<Rightarrow> string \<Rightarrow> string" where
  "aliasToColumnName s aliasColumn =
     (let prefix = getAlias s @ ''_''
      in if \<not> startsWith aliasColumn prefix then aliasColumn
         else substring aliasColumn (length prefix))"

text \<open>The literal of an enumerated value, and the label of its WHEN branch.\<close>

definition valLiteral :: "('n \<Rightarrow> string) \<Rightarrow> 'n strnum \<Rightarrow> string" where
  "valLiteral numberToString v =
     (case v of SNNumber n \<Rightarrow> numberToString n
      | SNString t \<Rightarrow> sq @ replaceAll (CHR 0x27) (sq @ sq) (String_strnum numberToString v) @ sq)"

definition enumLabel :: "('n \<Rightarrow> string) \<Rightarrow> 'n EnumValue \<Rightarrow> string" where
  "enumLabel numberToString ev =
     (let fallback = ''Value '' @ dq @ replaceAll (CHR 0x22) (bs @ dq) (String_strnum numberToString (ev_value ev)) @ dq
      in case ev_label ev of
           None \<Rightarrow> fallback
         | Some l \<Rightarrow> if l \<noteq> [] then replaceAll (CHR 0x27) (sq @ sq) l else fallback)"

definition enumExpression :: "('n \<Rightarrow> string) \<Rightarrow> 'n Schema \<Rightarrow> 'n Column \<Rightarrow> string option" where
  "enumExpression numberToString s col =
     (case enumValues col of
        None \<Rightarrow> None
      | Some evs \<Rightarrow>
          (let al = getAlias s;
               colRef = al @ ''.'' @ name col;
               whenThens = join '' ''
                 (map (\<lambda>ev. ''WHEN '' @ colRef @ '' = '' @ valLiteral numberToString (ev_value ev)
                             @ '' THEN '' @ sq @ enumLabel numberToString ev @ sq) evs)
           in Some (''(CASE '' @ whenThens @ '' ELSE '' @ sq @ ''Value '' @ dq @ sq @ '' || ''
                    @ colRef @ '' || '' @ sq @ dq @ sq @ '' END)'')))"

text \<open>A template literal writes \<open>null\<close> for a null value.\<close>

definition templateOpt :: "string option \<Rightarrow> string" where
  "templateOpt v = (case v of None \<Rightarrow> ''null'' | Some t \<Rightarrow> t)"

definition getColumnFields :: "('n \<Rightarrow> string) \<Rightarrow> 'n Schema \<Rightarrow> bool \<Rightarrow> bool \<Rightarrow> string list" where
  "getColumnFields numberToString s includePrimary useLabels =
     (let al = getAlias s
      in map (\<lambda>col.
                if useLabels \<and> enumValues col \<noteq> None
                then templateOpt (enumExpression numberToString s col) @ '' AS '' @ dq @ al @ ''_'' @ name col @ ''_label'' @ dq
                else al @ ''.'' @ name col @ '' AS '' @ dq @ al @ ''_'' @ name col @ dq)
           (filter (\<lambda>col. includePrimary \<or> \<not> truthy (primaryKey col)) (columns s)))"

section \<open>DDL generation\<close>

definition columnDef :: "('n \<Rightarrow> string) \<Rightarrow> 'n Column \<Rightarrow> string" where
  "columnDef numberToString col =
     (let colDef = name col @ '' '' @ orElse (sqlType col) ''text'';
          colDef = (if truthy (primaryKey col) then colDef @ '' PRIMARY KEY'' else colDef);
          colDef = (if truthy (nullable col) then colDef @ '' NULL'' else colDef);
          colDef = (if truthy (autoIncrement col) then colDef @ '' GENERATED ALWAYS AS IDENTITY'' else colDef);
          colDef = (case defaultValue col of
                      None \<Rightarrow> colDef
                    | Some (PString d) \<Rightarrow> colDef @ '' DEFAULT '' @ sq @ replaceAll (CHR 0x27) (sq @ sq) d @ sq
                    | Some (PNumber n) \<Rightarrow> colDef @ '' DEFAULT '' @ numberToString n
                    | Some (PBoolean b) \<Rightarrow> colDef @ '' DEFAULT '' @ (if b then ''true'' else ''false''))
      in colDef)"

definition sqlCreateTable :: "('n \<Rightarrow> string) \<Rightarrow> 'n Schema \<Rightarrow> string" where
  "sqlCreateTable numberToString s =
     (let table = getTableName s True;
          columnsSql = join '', '' (map (columnDef numberToString) (columns s))
      in ''CREATE TABLE IF NOT EXISTS '' @ table @ '' ('' @ columnsSql @ '');'')"

definition enumConstraintSql :: "('n \<Rightarrow> string) \<Rightarrow> string \<Rightarrow> 'n Column \<Rightarrow> 'n EnumValue list \<Rightarrow> string" where
  "enumConstraintSql numberToString table col evs =
     (let constraintName = table @ ''_'' @ name col @ ''_enum_chk'';
          allowedValues = join '', '' (map (\<lambda>ev. valLiteral numberToString (ev_value ev)) evs)
      in join nl
           [''DO $$'', ''BEGIN'', ''  IF NOT EXISTS ('',
            ''    SELECT 1 FROM pg_constraint c'', ''    JOIN pg_class t ON c.conrelid = t.oid'',
            ''    WHERE lower(c.conname) = lower('' @ sq @ constraintName @ sq @ '') AND t.relname = ''
              @ sq @ table @ sq,
            ''  ) THEN'',
            ''    ALTER TABLE '' @ table @ '' ADD CONSTRAINT '' @ constraintName @ '' CHECK ('' @ name col
              @ '' IN ('' @ allowedValues @ ''));'',
            ''  END IF;'', ''END'', ''$$;''])"

definition sqlCreateEnumConstraints :: "('n \<Rightarrow> string) \<Rightarrow> 'n Schema \<Rightarrow> string list" where
  "sqlCreateEnumConstraints numberToString s =
     (let table = getTableName s True
      in foldl (\<lambda>constraints col.
                  case enumValues col of
                    None \<Rightarrow> constraints
                  | Some evs \<Rightarrow> constraints @ [enumConstraintSql numberToString table col evs])
           [] (columns s))"

definition foreignKeySql :: "string \<Rightarrow> ForeignKey \<Rightarrow> string" where
  "foreignKeySql table fk =
     (let constraintName = table @ ''_'' @ localColumn fk @ ''_fk'';
          localCol = localColumn fk;
          refTable = toLowerCase (referencedTable fk);
          refCol = referencedColumn fk;
          actions = [];
          actions = (case onDelete fk of None \<Rightarrow> actions
                     | Some a \<Rightarrow> actions @ [''ON DELETE '' @ action_text a]);
          actions = (case onUpdate fk of None \<Rightarrow> actions
                     | Some a \<Rightarrow> actions @ [''ON UPDATE '' @ action_text a]);
          actionSql = (if length actions \<noteq> 0 then '' '' @ join '' '' actions else [])
      in join nl
           [''DO $$'', ''BEGIN'', ''  IF NOT EXISTS ('',
            ''    SELECT 1 FROM pg_constraint c'', ''    JOIN pg_class t ON c.conrelid = t.oid'',
            ''    WHERE lower(c.conname) = lower('' @ sq @ constraintName @ sq @ '') AND t.relname = ''
              @ sq @ table @ sq,
            ''  ) THEN'',
            ''    ALTER TABLE '' @ table @ '' ADD CONSTRAINT '' @ constraintName @ '' FOREIGN KEY (''
              @ localCol @ '') REFERENCES '' @ refTable @ ''('' @ refCol @ '')'' @ actionSql @ '';'',
            ''  END IF;'', ''END'', ''$$;''])"

definition sqlCreateTableConstraints :: "'n Schema \<Rightarrow> string list" where
  "sqlCreateTableConstraints s =
     (let table = getTableName s True
      in foldl (\<lambda>constraintsSql fk. constraintsSql @ [foreignKeySql table fk]) [] (constraints s))"

definition sqlTableDrop :: "'n Schema \<Rightarrow> string" where
  "sqlTableDrop s = (let table = getTableName s True in ''DROP TABLE IF EXISTS '' @ table @ '';'')"

section \<open>DML generation\<close>

text \<open>The column reference of a filter, then the condition that one filter gives.\<close>

definition filterColRef :: "'n Schema \<Rightarrow> 'n Filter \<Rightarrow> string" where
  "filterColRef s f =
     (let al = getAlias s
      in case f_ref f of
           ByAlias a \<Rightarrow> (let colName = aliasToColumnName s a in al @ ''.'' @ colName)
         | ByColumn c \<Rightarrow> al @ ''.'' @ c)"

definition filterCondition :: "('n \<Rightarrow> string) \<Rightarrow> 'n Schema \<Rightarrow> 'n Filter \<Rightarrow> string" where
  "filterCondition numberToString s f =
     (let colRef = filterColRef s f;
          operator = orElse (f_operator f) ''=''
      in case f_value f of
           None \<Rightarrow>
             (let op = (if toUpperCase operator = ''IS NOT'' then ''IS NOT'' else ''IS'')
              in colRef @ '' '' @ op @ '' NULL'')
         | Some v \<Rightarrow>
             (let literal = (case v of
                               PNumber n \<Rightarrow> numberToString n
                             | PBoolean b \<Rightarrow> (if b then ''TRUE'' else ''FALSE'')
                             | PString t \<Rightarrow> sq @ replaceAll (CHR 0x27) (sq @ sq) t @ sq)
              in colRef @ '' '' @ operator @ '' '' @ literal))"

definition whereClause :: "('n \<Rightarrow> string) \<Rightarrow> 'n Schema \<Rightarrow> 'n Filter oneOrMany option \<Rightarrow> string" where
  "whereClause numberToString s fl =
     (case fl of
        None \<Rightarrow> []
      | Some fa \<Rightarrow>
          (let filters = asArray fa;
               conditions = map (filterCondition numberToString s) filters
           in '' WHERE '' @ join '' AND '' conditions))"

definition sqlSelect :: "('n \<Rightarrow> string) \<Rightarrow> 'n Schema \<Rightarrow> bool \<Rightarrow> 'n Filter oneOrMany option \<Rightarrow> string" where
  "sqlSelect numberToString s useLabels fl =
     (let fields = join '', '' (getColumnFields numberToString s True useLabels);
          table = getTableName s True;
          al = getAlias s;
          wh = whereClause numberToString s fl
      in ''SELECT '' @ fields @ '' FROM '' @ table @ '' AS '' @ al @ wh)"

text \<open>The loop of sqlInsert pushes to two arrays, \<open>columns\<close> and \<open>placeholders\<close>.\<close>

fun sqlInsert_loop ::
  "string \<Rightarrow> (string \<rightharpoonup> 'v) \<Rightarrow> 'n Column list \<Rightarrow> string list \<times> string list \<Rightarrow> string list \<times> string list" where
  "sqlInsert_loop al data [] acc = acc"
| "sqlInsert_loop al data (col # cols) (cs, placeholders) =
     (let aliasKey = al @ ''_'' @ name col
      in if hasOwnProperty data aliasKey
         then sqlInsert_loop al data cols (cs @ [al @ ''.'' @ name col], placeholders @ [''$'' @ aliasKey])
         else sqlInsert_loop al data cols (cs, placeholders))"

definition sqlInsert :: "'n Schema \<Rightarrow> (string \<rightharpoonup> 'v) \<Rightarrow> string" where
  "sqlInsert s data =
     (let table = getTableName s True;
          al = getAlias s;
          (cs, placeholders) = sqlInsert_loop al data (columns s) ([], [])
      in if length cs = 0 then []
         else ''INSERT INTO '' @ table @ '' AS '' @ al @ '' ('' @ join '', '' cs @ '') VALUES (''
              @ join '', '' placeholders @ '')'')"

fun sqlUpdate_loop :: "string \<Rightarrow> (string \<rightharpoonup> 'v) \<Rightarrow> 'n Column list \<Rightarrow> string list \<Rightarrow> string list" where
  "sqlUpdate_loop al data [] setClauses = setClauses"
| "sqlUpdate_loop al data (col # cols) setClauses =
     (if hasOwnProperty data (name col) \<and> \<not> truthy (primaryKey col)
      then sqlUpdate_loop al data cols (setClauses @ [al @ ''.'' @ name col @ '' = $'' @ al @ ''_'' @ name col])
      else sqlUpdate_loop al data cols setClauses)"

definition sqlUpdate :: "'n Schema \<Rightarrow> (string \<rightharpoonup> 'v) \<Rightarrow> string" where
  "sqlUpdate s data =
     (let table = getTableName s True;
          al = getAlias s;
          setClauses = sqlUpdate_loop al data (columns s) [];
          pkField = getPrimaryKey s False;
          pkPlaceholder = ''$'' @ templateOpt (getPrimaryKey s True)
      in ''UPDATE '' @ table @ '' AS '' @ al @ '' SET '' @ join '', '' setClauses @ '' WHERE ''
         @ templateOpt pkField @ '' = '' @ pkPlaceholder)"

definition sqlDelete :: "('n \<Rightarrow> string) \<Rightarrow> 'n Schema \<Rightarrow> 'n Filter oneOrMany option \<Rightarrow> string" where
  "sqlDelete numberToString s fl =
     (let table = getTableName s True;
          al = getAlias s;
          wh = whereClause numberToString s fl
      in ''DELETE FROM '' @ table @ '' AS '' @ al @ wh)"

section \<open>Method calls on a descriptor\<close>

text \<open>
  A call of a public method, the value it returns, and its effect on the fields of the
  descriptor. \<open>exec\<close> gives the returned value together with the descriptor after the call:
  addColumn and addConstraint push to the stored lists and return the descriptor itself,
  no other method assigns to a field or pushes to a stored list.
\<close>

datatype ('n, 'v) call =
    AddColumn "'n Column oneOrMany"
  | AddConstraint "ForeignKey oneOrMany"
  | GetAlias
  | GetColumnAliases bool
  | GetColumnFields bool bool
  | GetColumnNames bool
  | GetPrimaryKey bool
  | GetTableName "bool option"
  | SqlCreateTable
  | SqlCreateEnumConstraints
  | SqlCreateTableConstraints
  | SqlTableDrop
  | SqlSelect bool "'n Filter oneOrMany option"
  | SqlInsert "string \<rightharpoonup> 'v"
  | SqlUpdate "string \<rightharpoonup> 'v"
  | SqlDelete "'n Filter oneOrMany option"
  | AliasToColumnName string

datatype result =
    This
  | Text string
  | TextOrNull "string option"
  | Texts "string list"

fun exec :: "('n \<Rightarrow> string) \<Rightarrow> ('n, 'v) call \<Rightarrow> 'n Schema \<Rightarrow> result \<times> 'n Schema" where
  "exec numberToString (AddColumn column) s = (This, addColumn s column)"
| "exec numberToString (AddConstraint constraint) s = (This, addConstraint s constraint)"
| "exec numberToString GetAlias s = (Text (getAlias s), s)"
| "exec numberToString (GetColumnAliases includePrimary) s = (Texts (getColumnAliases s includePrimary), s)"
| "exec numberToString (GetColumnFields includePrimary useLabels) s = (Texts (getColumnFields numberToString s includePrimary useLabels), s)"
| "exec numberToString (GetColumnNames includePrimary) s = (Texts (getColumnNames s includePrimary), s)"
| "exec numberToString (GetPrimaryKey useAlias) s = (TextOrNull (getPrimaryKey s useAlias), s)"
| "exec numberToString (GetTableName useSql) s = (Text (getTableName s (case useSql of None \<Rightarrow> False | Some b \<Rightarrow> b)), s)"
| "exec numberToString SqlCreateTable s = (Text (sqlCreateTable numberToString s), s)"
| "exec numberToString SqlCreateEnumConstraints s = (Texts (sqlCreateEnumConstraints numberToString s), s)"
| "exec numberToString SqlCreateTableConstraints s = (Texts (sqlCreateTableConstraints s), s)"
| "exec numberToString SqlTableDrop s = (Text (sqlTableDrop s), s)"
| "exec numberToString (SqlSelect useLabels fl) s = (Text (sqlSelect numberToString s useLabels fl), s)"
| "exec numberToString (SqlInsert data) s = (Text (sqlInsert s data), s)"
| "exec numberToString (SqlUpdate data) s = (Text (sqlUpdate s data), s)"
| "exec numberToString (SqlDelete fl) s = (Text (sqlDelete numberToString s fl), s)"
| "exec numberToString (AliasToColumnName aliasColumn) s = (Text (aliasToColumnName s aliasColumn), s)"

text \<open>The generation and projection methods: every method but the two that append.\<close>

fun isGeneration :: "('n, 'v) call \<Rightarrow> bool" where
  "isGeneration (AddColumn column) = False"
| "isGeneration (AddConstraint constraint) = False"
| "isGeneration GetAlias = True"
| "isGeneration (GetColumnAliases includePrimary) = True"
| "isGeneration (GetColumnFields includePrimary useLabels) = True"
| "isGeneration (GetColumnNames includePrimary) = True"
| "isGeneration (GetPrimaryKey useAlias) = True"
| "isGeneration (GetTableName useSql) = True"
| "isGeneration SqlCreateTable = True"
| "isGeneration SqlCreateEnumConstraints = True"
| "isGeneration SqlCreateTableConstraints = True"
| "isGeneration SqlTableDrop = True"
| "isGeneration (SqlSelect useLabels fl) = True"
| "isGeneration (SqlInsert data) = True"
| "isGeneration (SqlUpdate data) = True"
| "isGeneration (SqlDelete fl) = True"
| "isGeneration (AliasToColumnName aliasColumn) = True"

section \<open>Example descriptors\<close>

text \<open>
  The Numbers of the examples, 0, 1, 5, 1.5 and 1e21, each with the text that \<open>String\<close> and a
  template literal give for it.
\<close>

datatype exampleNumber = Zero | One | Five | OneAndAHalf | TenPow21

fun exampleString :: "exampleNumber \<Rightarrow> string" where
  "exampleString Zero = ''0''"
| "exampleString One = ''1''"
| "exampleString Five = ''5''"
| "exampleString OneAndAHalf = ''1.5''"
| "exampleString TenPow21 = ''1e+21''"

text \<open>A column that sets its name only, as the object literal \<open>{ name: n }\<close>.\<close>

definition plainColumn :: "string \<Rightarrow> 'n Column" where
  "plainColumn n =
     \<lparr> name = n, sqlType = None, primaryKey = None, nullable = None, autoIncrement = None,
       foreignKey = None, defaultValue = None, enumValues = None \<rparr>"

definition idColumn :: "exampleNumber Column" where
  "idColumn = (plainColumn ''id'') \<lparr> sqlType := Some ''uuid'', primaryKey := Some True \<rparr>"

definition nameColumn :: "exampleNumber Column" where
  "nameColumn = (plainColumn ''name'') \<lparr> sqlType := Some ''text'' \<rparr>"

definition statusColumn :: "exampleNumber Column" where
  "statusColumn = (plainColumn ''status'')
     \<lparr> sqlType := Some ''smallint'',
       enumValues := Some [\<lparr> ev_value = SNNumber Zero, ev_label = Some ''Off'' \<rparr>,
                           \<lparr> ev_value = SNNumber One, ev_label = Some ''On'' \<rparr>] \<rparr>"

definition surnameColumn :: "exampleNumber Column" where
  "surnameColumn = (plainColumn ''surname'')
     \<lparr> nullable := Some True, defaultValue := Some (PString (''O'' @ sq @ ''Brien'')) \<rparr>"

definition counterColumn :: "exampleNumber Column" where
  "counterColumn = (plainColumn ''counter'')
     \<lparr> sqlType := Some ''integer'', primaryKey := Some True, autoIncrement := Some True \<rparr>"

definition ratioColumn :: "exampleNumber Column" where
  "ratioColumn = (plainColumn ''ratio'') \<lparr> sqlType := Some ''numeric'', defaultValue := Some (PNumber OneAndAHalf) \<rparr>"

definition activeColumn :: "exampleNumber Column" where
  "activeColumn = (plainColumn ''active'') \<lparr> sqlType := Some ''boolean'', defaultValue := Some (PBoolean True) \<rparr>"

text \<open>\<open>new Schema('MyTable', 'mt', [id, name])\<close> and the descriptor of the repository's test.\<close>

definition myTable :: "exampleNumber Schema" where
  "myTable = new_Schema ''MyTable'' (Some ''mt'') (Some [idColumn, nameColumn]) None"

definition statusTable :: "exampleNumber Schema" where
  "statusTable = new_Schema ''MyTable'' (Some ''mt'') (Some [idColumn, nameColumn, statusColumn]) None"

definition peopleTable :: "exampleNumber Schema" where
  "peopleTable = new_Schema ''People'' None (Some [counterColumn, surnameColumn]) None"

definition titleColumn :: "exampleNumber Column" where
  "titleColumn = (plainColumn ''title'') \<lparr> primaryKey := Some False \<rparr>"

definition titleTable :: "exampleNumber Schema" where
  "titleTable = new_Schema ''MyTable'' (Some ''mt'') (Some [idColumn, titleColumn]) None"

text \<open>Filters: \<open>{alias: "mt_id", value: null}\<close> and others, one for each kind of value.\<close>

definition idIsNull :: "exampleNumber Filter" where
  "idIsNull = \<lparr> f_ref = ByAlias ''mt_id'', f_operator = None, f_value = None \<rparr>"

definition nameIsNotNull :: "exampleNumber Filter" where
  "nameIsNotNull = \<lparr> f_ref = ByColumn ''name'', f_operator = Some ''is Not'', f_value = None \<rparr>"

definition nameLikeNull :: "exampleNumber Filter" where
  "nameLikeNull = \<lparr> f_ref = ByColumn ''name'', f_operator = Some ''LIKE'', f_value = None \<rparr>"

definition nameLikeOBrien :: "exampleNumber Filter" where
  "nameLikeOBrien =
     \<lparr> f_ref = ByColumn ''name'', f_operator = Some ''LIKE'', f_value = Some (PString (''O'' @ sq @ ''Brien'')) \<rparr>"

definition idIsFive :: "exampleNumber Filter" where
  "idIsFive = \<lparr> f_ref = ByColumn ''id'', f_operator = None, f_value = Some (PNumber Five) \<rparr>"

definition idIsLarge :: "exampleNumber Filter" where
  "idIsLarge = \<lparr> f_ref = ByColumn ''id'', f_operator = Some ''<'', f_value = Some (PNumber TenPow21) \<rparr>"

definition nameNotTrue :: "exampleNumber Filter" where
  "nameNotTrue = \<lparr> f_ref = ByColumn ''name'', f_operator = Some ''!='', f_value = Some (PBoolean True) \<rparr>"

lemmas example_defs =
  myTable_def statusTable_def peopleTable_def new_Schema_def plainColumn_def idColumn_def nameColumn_def
  statusColumn_def surnameColumn_def counterColumn_def titleColumn_def titleTable_def
  ratioColumn_def activeColumn_def
  idIsNull_def nameIsNotNull_def nameLikeNull_def nameLikeOBrien_def idIsFive_def idIsLarge_def nameNotTrue_def

lemmas string_defs =
  toLowerCase_def toUpperCase_def toLowerChar_def toUpperChar_def upperLetters_def lowerLetters_def
  orElse_def replaceAll_def

section \<open>The loops as filters\<close>

lemma sqlInsert_loop_filter:
  "sqlInsert_loop al data cols (cs, ps) =
     (cs @ map (\<lambda>c. al @ ''.'' @ name c) (filter (\<lambda>c. al @ ''_'' @ name c \<in> dom data) cols),
      ps @ map (\<lambda>c. ''$'' @ al @ ''_'' @ name c) (filter (\<lambda>c. al @ ''_'' @ name c \<in> dom data) cols))"
  by (induction cols arbitrary: cs ps) (auto simp: hasOwnProperty_def Let_def)

lemma sqlUpdate_loop_filter:
  "sqlUpdate_loop al data cols acc =
     acc @ map (\<lambda>c. al @ ''.'' @ name c @ '' = $'' @ al @ ''_'' @ name c)
             (filter (\<lambda>c. name c \<in> dom data \<and> primaryKey c \<noteq> Some True) cols)"
  by (induction cols arbitrary: acc) (auto simp: hasOwnProperty_def truthy_def)

lemma getPrimaryKey_loop_find:
  "getPrimaryKey_loop al useAlias cols =
     map_option (\<lambda>c. al @ (if useAlias then ''_'' else ''.'') @ name c)
       (List.find (\<lambda>c. primaryKey c = Some True) cols)"
  by (induction cols) (auto simp: truthy_def)

section \<open>sqlInsert\<close>

text \<open>
  C1. For every descriptor and every data object, sqlInsert returns the empty string if and
  only if no column's alias-key \<open><alias>_<name>\<close> is a key of the data; otherwise it returns
  \<open>INSERT INTO <table> AS <alias> (<cols>) VALUES (<placeholders>)\<close>, where the column list
  holds \<open><alias>.<name>\<close> and the placeholder list holds \<open>$<alias>_<name>\<close>, both for exactly
  the columns whose alias-key is a key of the data, in declaration order (so a column and its
  placeholder stand at the same position).
\<close>

theorem sqlInsert_spec:
  "(sqlInsert s data = [] \<longleftrightarrow> (\<forall>c \<in> set (columns s). alias_str s @ ''_'' @ name c \<notin> dom data))
   \<and> ((\<exists>c \<in> set (columns s). alias_str s @ ''_'' @ name c \<in> dom data) \<longrightarrow>
        sqlInsert s data =
          ''INSERT INTO '' @ toLowerCase (tableName s) @ '' AS '' @ alias_str s @ '' (''
          @ join '', '' (map (\<lambda>c. alias_str s @ ''.'' @ name c)
                           (filter (\<lambda>c. alias_str s @ ''_'' @ name c \<in> dom data) (columns s)))
          @ '') VALUES (''
          @ join '', '' (map (\<lambda>c. ''$'' @ alias_str s @ ''_'' @ name c)
                           (filter (\<lambda>c. alias_str s @ ''_'' @ name c \<in> dom data) (columns s)))
          @ '')'')"
  by (auto simp: sqlInsert_def sqlInsert_loop_filter getAlias_def getTableName_def Let_def filter_empty_conv)

text \<open>
  On the descriptor with table MyTable, alias mt and columns id (primary) and name: the data
  \<open>{mt_name: "x"}\<close> inserts the column name only, and the data \<open>{name: "x"}\<close>, which has no
  alias-key, gives the empty string.
\<close>

theorem sqlInsert_spec_witness:
  "sqlInsert myTable [''mt_name'' \<mapsto> (PString ''x'' :: exampleNumber prim)] = ''INSERT INTO mytable AS mt (mt.name) VALUES ($mt_name)''
   \<and> sqlInsert myTable [''name'' \<mapsto> (PString ''x'' :: exampleNumber prim)] = []"
  using sqlInsert_spec [where s = myTable and data = "[''mt_name'' \<mapsto> (PString ''x'' :: exampleNumber prim)]"]
        sqlInsert_spec [where s = myTable and data = "[''name'' \<mapsto> (PString ''x'' :: exampleNumber prim)]"]
  by (simp add: example_defs string_defs)

section \<open>sqlUpdate\<close>

text \<open>
  C2. For every descriptor and every data object, sqlUpdate puts \<open><alias>.<name> = $<alias>_<name>\<close>
  in the SET list for exactly the columns not marked primary key whose bare name is a key of the
  data, in declaration order, and always appends \<open>WHERE <alias>.<pk> = $<alias>_<pk>\<close>, built from
  the first column marked primary key, whether or not the SET list is empty. (A descriptor with
  no primary-key column has no such column to build from: the code then writes \<open>null = $null\<close>.)
\<close>

theorem sqlUpdate_spec:
  "sqlUpdate s data =
     ''UPDATE '' @ toLowerCase (tableName s) @ '' AS '' @ alias_str s @ '' SET ''
     @ join '', '' (map (\<lambda>c. alias_str s @ ''.'' @ name c @ '' = $'' @ alias_str s @ ''_'' @ name c)
                      (filter (\<lambda>c. name c \<in> dom data \<and> primaryKey c \<noteq> Some True) (columns s)))
     @ '' WHERE ''
     @ (case List.find (\<lambda>c. primaryKey c = Some True) (columns s) of
          Some pk \<Rightarrow> alias_str s @ ''.'' @ name pk @ '' = $'' @ alias_str s @ ''_'' @ name pk
        | None \<Rightarrow> ''null = $null'')"
  by (simp add: sqlUpdate_def sqlUpdate_loop_filter getPrimaryKey_def getPrimaryKey_loop_find
      getAlias_def getTableName_def templateOpt_def Let_def split: option.split)

text \<open>
  On the same descriptor, \<open>sqlUpdate({name: "x"})\<close> is the statement of the specification, and
  the WHERE clause is there also when no column is set.
\<close>

theorem sqlUpdate_spec_witness:
  "sqlUpdate myTable [''name'' \<mapsto> (PString ''x'' :: exampleNumber prim)]
     = ''UPDATE mytable AS mt SET mt.name = $mt_name WHERE mt.id = $mt_id''
   \<and> sqlUpdate myTable (Map.empty :: string \<rightharpoonup> exampleNumber prim)
     = ''UPDATE mytable AS mt SET  WHERE mt.id = $mt_id''"
  using sqlUpdate_spec [where s = myTable and data = "[''name'' \<mapsto> (PString ''x'' :: exampleNumber prim)]"]
        sqlUpdate_spec [where s = myTable and data = "Map.empty :: string \<rightharpoonup> exampleNumber prim"]
  by (simp add: example_defs string_defs)

section \<open>The where-clause of sqlSelect and sqlDelete\<close>

lemma orElse_IS_NOT:
  "(toUpperCase (orElse op ''='') = ''IS NOT'') = (map_option toUpperCase op = Some ''IS NOT'')"
  by (cases op) (auto simp: orElse_def string_defs)

text \<open>
  C3. For every descriptor, the where-clause shared by sqlSelect and sqlDelete is the empty
  string when no filter is given; with one filter or a list of filters it is \<open> WHERE \<close> followed
  by the conditions joined with \<open> AND \<close>. A filter whose value is null gives \<open><col> IS NULL\<close>,
  or \<open><col> IS NOT NULL\<close> exactly when its operator is \<open>IS NOT\<close> up to letter case, whatever
  other operator was asked for. A string value is single-quoted with its single quotes
  doubled, a number is written as it is (the text that \<open>String\<close> gives for it, with no quotes
  around it), a boolean as TRUE or FALSE.
\<close>

theorem whereClause_spec:
  "whereClause numberToString s None = []
   \<and> whereClause numberToString s (Some (Single f)) = '' WHERE '' @ filterCondition numberToString s f
   \<and> whereClause numberToString s (Some (Several fs)) = '' WHERE '' @ join '' AND '' (map (filterCondition numberToString s) fs)
   \<and> sqlSelect numberToString s useLabels fl =
        ''SELECT '' @ join '', '' (getColumnFields numberToString s True useLabels) @ '' FROM ''
        @ toLowerCase (tableName s) @ '' AS '' @ alias_str s @ whereClause numberToString s fl
   \<and> sqlDelete numberToString s fl = ''DELETE FROM '' @ toLowerCase (tableName s) @ '' AS '' @ alias_str s @ whereClause numberToString s fl
   \<and> (f_value f = None \<longrightarrow>
        filterCondition numberToString s f =
          filterColRef s f @ (if map_option toUpperCase (f_operator f) = Some ''IS NOT''
                              then '' IS NOT NULL'' else '' IS NULL''))
   \<and> (\<forall>t. f_value f = Some (PString t) \<longrightarrow>
        filterCondition numberToString s f =
          filterColRef s f @ '' '' @ orElse (f_operator f) ''='' @ '' '' @ sq
          @ replaceAll (CHR 0x27) [CHR 0x27, CHR 0x27] t @ sq)
   \<and> (\<forall>n. f_value f = Some (PNumber n) \<longrightarrow>
        filterCondition numberToString s f = filterColRef s f @ '' '' @ orElse (f_operator f) ''='' @ '' '' @ numberToString n)
   \<and> (\<forall>b. f_value f = Some (PBoolean b) \<longrightarrow>
        filterCondition numberToString s f =
          filterColRef s f @ '' '' @ orElse (f_operator f) ''='' @ '' '' @ (if b then ''TRUE'' else ''FALSE''))"
proof -
  have null: "f_value f = None \<longrightarrow>
        filterCondition numberToString s f =
          filterColRef s f @ (if map_option toUpperCase (f_operator f) = Some ''IS NOT''
                              then '' IS NOT NULL'' else '' IS NULL'')"
    by (auto simp add: filterCondition_def Let_def orElse_IS_NOT)
  have others: "(\<forall>t. f_value f = Some (PString t) \<longrightarrow>
        filterCondition numberToString s f =
          filterColRef s f @ '' '' @ orElse (f_operator f) ''='' @ '' '' @ sq
          @ replaceAll (CHR 0x27) [CHR 0x27, CHR 0x27] t @ sq)
   \<and> (\<forall>n. f_value f = Some (PNumber n) \<longrightarrow>
        filterCondition numberToString s f = filterColRef s f @ '' '' @ orElse (f_operator f) ''='' @ '' '' @ numberToString n)
   \<and> (\<forall>b. f_value f = Some (PBoolean b) \<longrightarrow>
        filterCondition numberToString s f =
          filterColRef s f @ '' '' @ orElse (f_operator f) ''='' @ '' '' @ (if b then ''TRUE'' else ''FALSE''))"
    by (simp add: filterCondition_def Let_def)
  have wh: "whereClause numberToString s None = []
   \<and> whereClause numberToString s (Some (Single f)) = '' WHERE '' @ filterCondition numberToString s f
   \<and> whereClause numberToString s (Some (Several fs)) = '' WHERE '' @ join '' AND '' (map (filterCondition numberToString s) fs)"
    by (simp add: whereClause_def)
  have stmts: "sqlSelect numberToString s useLabels fl =
        ''SELECT '' @ join '', '' (getColumnFields numberToString s True useLabels) @ '' FROM ''
        @ toLowerCase (tableName s) @ '' AS '' @ alias_str s @ whereClause numberToString s fl
   \<and> sqlDelete numberToString s fl = ''DELETE FROM '' @ toLowerCase (tableName s) @ '' AS '' @ alias_str s @ whereClause numberToString s fl"
    by (simp add: sqlSelect_def sqlDelete_def getTableName_def getAlias_def Let_def)
  from null others wh stmts show ?thesis by blast
qed

text \<open>
  On the descriptor with table MyTable and alias mt: \<open>sqlDelete({alias: "mt_id", value: null})\<close>
  ends in \<open> WHERE mt.id IS NULL\<close>; a list of filters with a null value under \<open>is Not\<close> and under
  LIKE, a string, the numbers 5 and 1e21 and a boolean; and no filter at all.
\<close>

theorem whereClause_spec_witness:
  "sqlDelete exampleString myTable (Some (Single idIsNull)) = ''DELETE FROM mytable AS mt WHERE mt.id IS NULL''
   \<and> sqlDelete exampleString myTable
         (Some (Several [nameIsNotNull, nameLikeOBrien, idIsFive, nameNotTrue, nameLikeNull, idIsLarge]))
       = ''DELETE FROM mytable AS mt WHERE mt.name IS NOT NULL AND mt.name LIKE ''
         @ sq @ ''O'' @ sq @ sq @ ''Brien'' @ sq
         @ '' AND mt.id = 5 AND mt.name != TRUE AND mt.name IS NULL AND mt.id < 1e+21''
   \<and> sqlDelete exampleString myTable None = ''DELETE FROM mytable AS mt''"
  using whereClause_spec [where numberToString = exampleString and s = myTable and f = idIsNull
      and fs = "[]" and useLabels = False and fl = "Some (Single idIsNull)"]
    whereClause_spec [where numberToString = exampleString and s = myTable and f = nameIsNotNull
      and fs = "[nameIsNotNull, nameLikeOBrien, idIsFive, nameNotTrue, nameLikeNull, idIsLarge]"
      and useLabels = False
      and fl = "Some (Several [nameIsNotNull, nameLikeOBrien, idIsFive, nameNotTrue, nameLikeNull, idIsLarge])"]
    whereClause_spec [where numberToString = exampleString and s = myTable and f = nameLikeOBrien
      and fs = "[]" and useLabels = False and fl = None]
    whereClause_spec [where numberToString = exampleString and s = myTable and f = idIsFive
      and fs = "[]" and useLabels = False and fl = None]
    whereClause_spec [where numberToString = exampleString and s = myTable and f = idIsLarge
      and fs = "[]" and useLabels = False and fl = None]
    whereClause_spec [where numberToString = exampleString and s = myTable and f = nameNotTrue
      and fs = "[]" and useLabels = False and fl = None]
    whereClause_spec [where numberToString = exampleString and s = myTable and f = nameLikeNull
      and fs = "[]" and useLabels = False and fl = None]
  by (simp add: example_defs string_defs filterColRef_def aliasToColumnName_def startsWith_def
      substring_def getAlias_def sqlDelete_def whereClause_def filterCondition_def getTableName_def)

section \<open>Projections of the column list\<close>

lemma enumExpression_columns [simp]:
  "enumExpression numberToString (s\<lparr>columns := cs\<rparr>) col = enumExpression numberToString s col"
  by (simp add: enumExpression_def getAlias_def split: option.split)

text \<open>
  C4. For every descriptor, getColumnAliases, getColumnNames and getColumnFields give one entry
  per column in declaration order, all columns when includePrimary is true and all but those
  marked primaryKey=true when it is false; the entries are \<open><alias>_<name>\<close>, \<open><alias>.<name>\<close>
  and, for a column without enumValues or when useLabels is false,
  \<open><alias>.<name> AS "<alias>_<name>"\<close>.
\<close>

theorem projections_spec:
  "getColumnAliases s True = map (\<lambda>c. alias_str s @ ''_'' @ name c) (columns s)
   \<and> getColumnAliases s False =
       map (\<lambda>c. alias_str s @ ''_'' @ name c) (filter (\<lambda>c. primaryKey c \<noteq> Some True) (columns s))
   \<and> getColumnNames s True = map (\<lambda>c. alias_str s @ ''.'' @ name c) (columns s)
   \<and> getColumnNames s False =
       map (\<lambda>c. alias_str s @ ''.'' @ name c) (filter (\<lambda>c. primaryKey c \<noteq> Some True) (columns s))
   \<and> length (getColumnFields numberToString s True useLabels) = length (columns s)
   \<and> length (getColumnFields numberToString s False useLabels) = length (filter (\<lambda>c. primaryKey c \<noteq> Some True) (columns s))
   \<and> (\<forall>i < length (columns s).
         enumValues (columns s ! i) = None \<or> \<not> useLabels \<longrightarrow>
         getColumnFields numberToString s True useLabels ! i =
           alias_str s @ ''.'' @ name (columns s ! i) @ '' AS '' @ dq @ alias_str s @ ''_'' @ name (columns s ! i) @ dq)
   \<and> (\<forall>i < length (filter (\<lambda>c. primaryKey c \<noteq> Some True) (columns s)).
         enumValues (filter (\<lambda>c. primaryKey c \<noteq> Some True) (columns s) ! i) = None \<or> \<not> useLabels \<longrightarrow>
         getColumnFields numberToString s False useLabels ! i =
           alias_str s @ ''.'' @ name (filter (\<lambda>c. primaryKey c \<noteq> Some True) (columns s) ! i) @ '' AS '' @ dq
           @ alias_str s @ ''_'' @ name (filter (\<lambda>c. primaryKey c \<noteq> Some True) (columns s) ! i) @ dq)"
  by (auto simp: getColumnAliases_def getColumnNames_def getColumnFields_def getAlias_def truthy_def Let_def)

text \<open>The descriptor of the repository's test, with columns id (primary), name and status.\<close>

theorem projections_spec_witness:
  "getColumnAliases statusTable True = [''mt_id'', ''mt_name'', ''mt_status'']
   \<and> getColumnAliases statusTable False = [''mt_name'', ''mt_status'']
   \<and> getColumnNames statusTable True = [''mt.id'', ''mt.name'', ''mt.status'']
   \<and> getColumnNames statusTable False = [''mt.name'', ''mt.status'']
   \<and> getColumnFields exampleString statusTable True False
       = [''mt.id AS '' @ dq @ ''mt_id'' @ dq, ''mt.name AS '' @ dq @ ''mt_name'' @ dq,
          ''mt.status AS '' @ dq @ ''mt_status'' @ dq]
   \<and> getColumnFields exampleString statusTable False False
       = [''mt.name AS '' @ dq @ ''mt_name'' @ dq, ''mt.status AS '' @ dq @ ''mt_status'' @ dq]
   \<and> getColumnFields exampleString statusTable False True ! 0 = ''mt.name AS '' @ dq @ ''mt_name'' @ dq"
  using projections_spec [where numberToString = exampleString and s = statusTable and useLabels = False]
    projections_spec [where numberToString = exampleString and s = statusTable and useLabels = True]
  by (simp add: example_defs string_defs getColumnFields_def getAlias_def truthy_def)

text \<open>
  C5, as the specification words it: with includePrimary=false, a column with primaryKey=false
  would be absent from the three outputs. It is present: on the descriptor with columns id
  (primary) and title (primaryKey=false), the outputs are exactly the entries of title.
\<close>

theorem nonprimary_column_present:
  "primaryKey titleColumn = Some False
   \<and> getColumnAliases titleTable False = [''mt_title'']
   \<and> getColumnNames titleTable False = [''mt.title'']
   \<and> getColumnFields exampleString titleTable False True = [''mt.title AS '' @ dq @ ''mt_title'' @ dq]
   \<and> getColumnFields exampleString titleTable False False = [''mt.title AS '' @ dq @ ''mt_title'' @ dq]"
  by (simp add: example_defs string_defs getColumnAliases_def getColumnNames_def getColumnFields_def
      getAlias_def truthy_def)

text \<open>
  C5, amended: for all columns with primaryKey=true and includePrimary=false, the column is
  absent from the output of getColumnFields, getColumnNames and getColumnAliases: each output
  is the one of the descriptor without that column.
\<close>

theorem primary_column_absent:
  "primaryKey c = Some True \<longrightarrow>
     getColumnAliases (s\<lparr>columns := xs @ c # ys\<rparr>) False = getColumnAliases (s\<lparr>columns := xs @ ys\<rparr>) False
     \<and> getColumnNames (s\<lparr>columns := xs @ c # ys\<rparr>) False = getColumnNames (s\<lparr>columns := xs @ ys\<rparr>) False
     \<and> getColumnFields numberToString (s\<lparr>columns := xs @ c # ys\<rparr>) False useLabels
         = getColumnFields numberToString (s\<lparr>columns := xs @ ys\<rparr>) False useLabels"
  by (auto simp add: getColumnAliases_def getColumnNames_def getColumnFields_def getAlias_def truthy_def Let_def)

theorem primary_column_absent_witness:
  "primaryKey idColumn = Some True
   \<and> getColumnAliases (myTable\<lparr>columns := [] @ idColumn # [nameColumn]\<rparr>) False = [''mt_name'']
   \<and> getColumnNames (myTable\<lparr>columns := [] @ idColumn # [nameColumn]\<rparr>) False = [''mt.name'']
   \<and> getColumnFields exampleString (myTable\<lparr>columns := [] @ idColumn # [nameColumn]\<rparr>) False True
       = [''mt.name AS '' @ dq @ ''mt_name'' @ dq]"
  using primary_column_absent
    [where numberToString = exampleString and c = idColumn and s = myTable and xs = "[]"
       and ys = "[nameColumn]" and useLabels = True]
  by (simp add: example_defs string_defs getColumnAliases_def getColumnNames_def getColumnFields_def
      getAlias_def truthy_def)

section \<open>Labels of enumerated values\<close>

lemma String_strnum_case:
  "String_strnum numberToString v = (case v of SNNumber n \<Rightarrow> numberToString n | SNString w \<Rightarrow> w)"
  by (cases v) simp_all

lemma valLiteral_case:
  "valLiteral numberToString v =
     (case v of SNNumber n \<Rightarrow> numberToString n
      | SNString w \<Rightarrow> sq @ replaceAll (CHR 0x27) [CHR 0x27, CHR 0x27] w @ sq)"
  by (simp add: valLiteral_def split: strnum.split)

lemma enumLabel_cases:
  "enumLabel numberToString ev =
     (if ev_label ev = None \<or> ev_label ev = Some []
      then ''Value '' @ dq
           @ replaceAll (CHR 0x22) [CHR 0x5C, CHR 0x22]
               (case ev_value ev of SNNumber n \<Rightarrow> numberToString n | SNString v \<Rightarrow> v)
           @ dq
      else replaceAll (CHR 0x27) [CHR 0x27, CHR 0x27] (the (ev_label ev)))"
  by (auto simp: enumLabel_def Let_def String_strnum_case split: option.split)

text \<open>
  C6, as the specification words it: on the descriptor with alias mt and the column status
  with the values 0 (Off) and 1 (On), the text of \<open>sqlSelect(true)\<close> would contain
  \<open>CASE WHEN mt.status = 0 THEN 'Off' WHEN mt.status = 1 THEN 'On' ELSE 'Value "' || mt.status || '"' END AS "mt_status_label"\<close>.
  It does not: the code closes a parenthesis between END and AS.
\<close>

theorem status_field_parenthesised:
  "\<not> sublist
       (''CASE WHEN mt.status = 0 THEN 'Off' WHEN mt.status = 1 THEN 'On' ELSE 'Value '' @ dq @ sq
        @ '' || mt.status || '' @ sq @ dq @ sq @ '' END AS '' @ dq @ ''mt_status_label'' @ dq)
       (sqlSelect exampleString statusTable True None)"
  by code_simp

text \<open>
  C6, amended: for a column with enumValues and useLabels=true, the field that getColumnFields
  emits, whatever includePrimary is (and so the field of \<open>sqlSelect(true)\<close>), is a CASE expression
  in parentheses,
  \<open>(CASE WHEN <alias>.<name> = <literal> THEN '<label>' ... ELSE 'Value "' || <alias>.<name> || '"' END)\<close>,
  aliased as \<open>"<alias>_<name>_label"\<close>; each label is written with its single quotes doubled,
  and a label that is absent or empty is replaced by \<open>Value "<value>"\<close> with the double quotes of
  the value backslash-escaped. For the column status above the field is
  \<open>(CASE WHEN mt.status = 0 THEN 'Off' WHEN mt.status = 1 THEN 'On' ELSE 'Value "' || mt.status || '"' END) AS "mt_status_label"\<close>.
\<close>

theorem enum_field_spec:
  "(\<forall>i < length (filter (\<lambda>c. includePrimary \<or> primaryKey c \<noteq> Some True) (columns s)). \<forall>col evs.
      filter (\<lambda>c. includePrimary \<or> primaryKey c \<noteq> Some True) (columns s) ! i = col
      \<and> enumValues col = Some evs \<longrightarrow>
      getColumnFields numberToString s includePrimary True ! i =
        ''(CASE ''
        @ join '' '' (map (\<lambda>ev. ''WHEN '' @ alias_str s @ ''.'' @ name col @ '' = ''
                              @ (case ev_value ev of
                                   SNNumber n \<Rightarrow> numberToString n
                                 | SNString v \<Rightarrow> sq @ replaceAll (CHR 0x27) [CHR 0x27, CHR 0x27] v @ sq)
                              @ '' THEN '' @ sq
                              @ (if ev_label ev = None \<or> ev_label ev = Some []
                                 then ''Value '' @ dq
                                      @ replaceAll (CHR 0x22) [CHR 0x5C, CHR 0x22]
                                          (case ev_value ev of SNNumber n \<Rightarrow> numberToString n | SNString v \<Rightarrow> v)
                                      @ dq
                                 else replaceAll (CHR 0x27) [CHR 0x27, CHR 0x27] (the (ev_label ev)))
                              @ sq) evs)
        @ '' ELSE '' @ sq @ ''Value '' @ dq @ sq @ '' || '' @ alias_str s @ ''.'' @ name col
        @ '' || '' @ sq @ dq @ sq @ '' END) AS '' @ dq @ alias_str s @ ''_'' @ name col @ ''_label'' @ dq)"
  by (simp add: getColumnFields_def enumExpression_def templateOpt_def getAlias_def Let_def
      enumLabel_cases valLiteral_case truthy_def)

text \<open>
  The status field is the third field with the primary key included and the second without it.
\<close>

theorem enum_field_spec_witness:
  "getColumnFields exampleString statusTable True True ! 2 =
     ''(CASE WHEN mt.status = 0 THEN 'Off' WHEN mt.status = 1 THEN 'On' ELSE 'Value '' @ dq @ sq
     @ '' || mt.status || '' @ sq @ dq @ sq @ '' END) AS '' @ dq @ ''mt_status_label'' @ dq
   \<and> getColumnFields exampleString statusTable False True ! 1 =
     ''(CASE WHEN mt.status = 0 THEN 'Off' WHEN mt.status = 1 THEN 'On' ELSE 'Value '' @ dq @ sq
     @ '' || mt.status || '' @ sq @ dq @ sq @ '' END) AS '' @ dq @ ''mt_status_label'' @ dq"
  using enum_field_spec [where numberToString = exampleString and s = statusTable and includePrimary = True]
    enum_field_spec [where numberToString = exampleString and s = statusTable and includePrimary = False]
  by (simp add: example_defs string_defs)

text \<open>The parenthesised field is part of the text of \<open>sqlSelect(true)\<close>.\<close>

lemma status_field_in_select:
  "sublist
     (''(CASE WHEN mt.status = 0 THEN 'Off' WHEN mt.status = 1 THEN 'On' ELSE 'Value '' @ dq @ sq
      @ '' || mt.status || '' @ sq @ dq @ sq @ '' END) AS '' @ dq @ ''mt_status_label'' @ dq)
     (sqlSelect exampleString statusTable True None)"
  by code_simp

section \<open>sqlCreateTable\<close>

text \<open>
  C7. For every descriptor, sqlCreateTable returns
  \<open>CREATE TABLE IF NOT EXISTS <lowercased table> (<col defs>);\<close>, where each column definition is
  \<open><name> <sqlType or "text">\<close> followed, in this order, by \<open> PRIMARY KEY\<close> if primaryKey,
  \<open> NULL\<close> if nullable, \<open> GENERATED ALWAYS AS IDENTITY\<close> if autoIncrement and \<open> DEFAULT <literal>\<close>
  if a default value is set: a string default single-quoted with its single quotes doubled, a
  number or a boolean default in its literal form (the text that the template literal gives
  for the number, \<open>true\<close> or \<open>false\<close> for the boolean).
\<close>

theorem sqlCreateTable_spec:
  "sqlCreateTable numberToString s =
     ''CREATE TABLE IF NOT EXISTS '' @ toLowerCase (tableName s) @ '' ('' @ join '', '' (map (columnDef numberToString) (columns s)) @ '');''
   \<and> columnDef numberToString c =
       name c @ '' '' @ orElse (sqlType c) ''text''
       @ (if primaryKey c = Some True then '' PRIMARY KEY'' else [])
       @ (if nullable c = Some True then '' NULL'' else [])
       @ (if autoIncrement c = Some True then '' GENERATED ALWAYS AS IDENTITY'' else [])
       @ (case defaultValue c of
            None \<Rightarrow> []
          | Some (PString d) \<Rightarrow> '' DEFAULT '' @ sq @ replaceAll (CHR 0x27) [CHR 0x27, CHR 0x27] d @ sq
          | Some (PNumber n) \<Rightarrow> '' DEFAULT '' @ numberToString n
          | Some (PBoolean b) \<Rightarrow> '' DEFAULT '' @ (if b then ''true'' else ''false''))"
  by (simp add: sqlCreateTable_def columnDef_def getTableName_def truthy_def Let_def
      split: option.split prim.split)

text \<open>
  The table People with an identity column and a nullable column of default \<open>O'Brien\<close>, which
  is written \<open>'O''Brien'\<close>; the column \<open>{name: "id", sqlType: "uuid", primaryKey: true}\<close>; a
  column of numeric default 1.5 and one of boolean default true.
\<close>

theorem sqlCreateTable_spec_witness:
  "sqlCreateTable exampleString peopleTable =
     ''CREATE TABLE IF NOT EXISTS people (counter integer PRIMARY KEY GENERATED ALWAYS AS IDENTITY, surname text NULL DEFAULT ''
     @ sq @ ''O'' @ sq @ sq @ ''Brien'' @ sq @ '');''
   \<and> columnDef exampleString idColumn = ''id uuid PRIMARY KEY''
   \<and> columnDef exampleString ratioColumn = ''ratio numeric DEFAULT 1.5''
   \<and> columnDef exampleString activeColumn = ''active boolean DEFAULT true''"
  using sqlCreateTable_spec [where numberToString = exampleString and s = peopleTable and c = idColumn]
    sqlCreateTable_spec [where numberToString = exampleString and s = peopleTable and c = counterColumn]
    sqlCreateTable_spec [where numberToString = exampleString and s = peopleTable and c = surnameColumn]
    sqlCreateTable_spec [where numberToString = exampleString and s = peopleTable and c = ratioColumn]
    sqlCreateTable_spec [where numberToString = exampleString and s = peopleTable and c = activeColumn]
  by (simp add: example_defs string_defs)

section \<open>aliasToColumnName\<close>

lemma startsWith_prefix: "startsWith x p \<longleftrightarrow> prefix p x"
  unfolding startsWith_def prefix_def
  by (metis append_eq_conv_conj append_take_drop_id)

text \<open>
  C8. Round trip: for every descriptor and every index i within its column list,
  aliasToColumnName of the i-th entry of \<open>getColumnAliases(true)\<close> is the bare name of the i-th
  column. aliasToColumnName strips the prefix \<open><alias>_\<close> when its argument starts with it and
  returns its argument unchanged otherwise.
\<close>

theorem aliasToColumnName_spec:
  "(\<forall>i < length (columns s). aliasToColumnName s (getColumnAliases s True ! i) = name (columns s ! i))
   \<and> aliasToColumnName s (alias_str s @ ''_'' @ rest) = rest
   \<and> (\<not> prefix (alias_str s @ ''_'') x \<longrightarrow> aliasToColumnName s x = x)"
  by (auto simp: aliasToColumnName_def getColumnAliases_def getAlias_def startsWith_prefix substring_def
      Let_def)

theorem aliasToColumnName_spec_witness:
  "aliasToColumnName myTable (getColumnAliases myTable True ! 1) = ''name''
   \<and> aliasToColumnName myTable ''mt_id'' = ''id''
   \<and> aliasToColumnName myTable ''name'' = ''name''"
  using aliasToColumnName_spec [where s = myTable and rest = "''id''" and x = "''name''"]
  by (simp add: example_defs string_defs)

section \<open>The descriptor is only read\<close>

text \<open>
  C9. Every generation and projection method (getAlias, getTableName, getColumnAliases,
  getColumnNames, getColumnFields, getPrimaryKey, aliasToColumnName, sqlCreateTable,
  sqlCreateEnumConstraints, sqlCreateTableConstraints, sqlTableDrop, sqlSelect, sqlInsert,
  sqlUpdate, sqlDelete) leaves the descriptor as it was: after the call the columns, the
  constraints, the table name and the alias are what they were before, and the same call made
  again returns the same result.
\<close>

theorem generation_pure:
  "isGeneration c \<longrightarrow>
     snd (exec numberToString c s) = s
     \<and> columns (snd (exec numberToString c s)) = columns s
     \<and> constraints (snd (exec numberToString c s)) = constraints s
     \<and> tableName (snd (exec numberToString c s)) = tableName s
     \<and> alias_str (snd (exec numberToString c s)) = alias_str s
     \<and> fst (exec numberToString c (snd (exec numberToString c s))) = fst (exec numberToString c s)"
  by (cases c) simp_all

theorem generation_pure_witness:
  "isGeneration (SqlInsert [''mt_name'' \<mapsto> PString ''x''] :: (exampleNumber, exampleNumber prim) call)
   \<and> exec exampleString (SqlInsert [''mt_name'' \<mapsto> (PString ''x'' :: exampleNumber prim)]) myTable
       = (Text ''INSERT INTO mytable AS mt (mt.name) VALUES ($mt_name)'', myTable)
   \<and> fst (exec exampleString (SqlInsert [''mt_name'' \<mapsto> (PString ''x'' :: exampleNumber prim)])
            (snd (exec exampleString (SqlInsert [''mt_name'' \<mapsto> (PString ''x'' :: exampleNumber prim)]) myTable)))
       = Text ''INSERT INTO mytable AS mt (mt.name) VALUES ($mt_name)''"
proof -
  have g: "isGeneration (SqlInsert [''mt_name'' \<mapsto> PString ''x''] :: (exampleNumber, exampleNumber prim) call)"
    by simp
  have r: "sqlInsert myTable [''mt_name'' \<mapsto> (PString ''x'' :: exampleNumber prim)]
             = ''INSERT INTO mytable AS mt (mt.name) VALUES ($mt_name)''"
    by (simp add: example_defs string_defs sqlInsert_def getTableName_def getAlias_def hasOwnProperty_def)
  from g r generation_pure [where numberToString = exampleString
      and c = "SqlInsert [''mt_name'' \<mapsto> (PString ''x'' :: exampleNumber prim)]" and s = myTable]
  show ?thesis by (simp add: prod_eq_iff)
qed

text \<open>The two other methods do change the descriptor: they append to its lists.\<close>

lemma addColumn_appends:
  "columns (snd (exec numberToString (AddColumn (Single c)) s)) = columns s @ [c]
   \<and> columns (snd (exec numberToString (AddColumn (Several cs)) s)) = columns s @ cs
   \<and> constraints (snd (exec numberToString (AddConstraint (Single k)) s)) = constraints s @ [k]
   \<and> constraints (snd (exec numberToString (AddConstraint (Several ks)) s)) = constraints s @ ks"
  by (simp add: addColumn_def addConstraint_def)

section \<open>An empty list of filters\<close>

text \<open>
  C10. For every descriptor, an empty list of filters given to sqlSelect or sqlDelete is not
  taken as no filter: the result is the statement without filter followed by the dangling
  \<open> WHERE \<close>, with no condition after it; with the filter argument left out, the statement ends
  with the alias and has no where-clause.
\<close>

theorem empty_filter_list:
  "sqlSelect numberToString s useLabels (Some (Several [])) = sqlSelect numberToString s useLabels None @ '' WHERE ''
   \<and> sqlDelete numberToString s (Some (Several [])) = sqlDelete numberToString s None @ '' WHERE ''
   \<and> sqlSelect numberToString s useLabels None =
        ''SELECT '' @ join '', '' (getColumnFields numberToString s True useLabels) @ '' FROM ''
        @ toLowerCase (tableName s) @ '' AS '' @ alias_str s
   \<and> sqlDelete numberToString s None = ''DELETE FROM '' @ toLowerCase (tableName s) @ '' AS '' @ alias_str s"
  by (simp add: sqlSelect_def sqlDelete_def whereClause_def getTableName_def getAlias_def Let_def)

theorem empty_filter_list_witness:
  "sqlDelete exampleString myTable (Some (Several [])) = ''DELETE FROM mytable AS mt WHERE ''
   \<and> sqlDelete exampleString myTable None = ''DELETE FROM mytable AS mt''
   \<and> sqlSelect exampleString myTable False (Some (Several [])) =
      ''SELECT mt.id AS '' @ dq @ ''mt_id'' @ dq @ '', mt.name AS '' @ dq @ ''mt_name'' @ dq
      @ '' FROM mytable AS mt WHERE ''"
  using empty_filter_list [where numberToString = exampleString and s = myTable and useLabels = False]
  by (simp add: example_defs string_defs getColumnFields_def getAlias_def)

end
